theory Spec2Isabelle
  imports Main "HOL-Library.Sublist"
begin

section \<open>The file system of the target host\<close>

text \<open>
  The module \<^verbatim>\<open>library/concatfile.py\<close> works on files of the host it runs on. A path
  names at most one node: a regular file \<open>File c r w\<close> with its content \<open>c\<close> and whether
  the running user may read it (\<open>r\<close>) and write to it (\<open>w\<close>), a directory \<open>Dir r\<close>, or
  a symbolic link \<open>Link t\<close> with its target. Paths are whole strings: links are followed
  at the last component only, and link targets are absolute. A file's content is the
  string that \<^verbatim>\<open>read()\<close> returns.
\<close>

type_synonym path = string

datatype node =
    File string bool bool
  | Dir bool
  | Link path

type_synonym filesystem = "path \<Rightarrow> node option"

text \<open>The kernel follows at most \<open>maxsymlinks\<close> links in one lookup (ELOOP beyond).\<close>

definition maxsymlinks :: nat where
  "maxsymlinks = 40"

text \<open>
  \<^verbatim>\<open>os.path.realpath\<close>: follow links as far as they go. A missing target is returned
  as it is (Python does not fail there).
\<close>

fun realpath :: "filesystem \<Rightarrow> nat \<Rightarrow> path \<Rightarrow> path" where
  "realpath fs 0 p = p"
| "realpath fs (Suc n) p =
     (case fs p of Some (Link t) \<Rightarrow> realpath fs n t | _ \<Rightarrow> p)"

text \<open>
  \<^verbatim>\<open>os.stat\<close>: the node a path leads to through its links, \<open>None\<close> when the path is
  missing, dangling, or the chain of links is too long.
\<close>

definition stat :: "filesystem \<Rightarrow> path \<Rightarrow> node option" where
  "stat fs p =
     (case fs (realpath fs maxsymlinks p) of
        Some (Link t) \<Rightarrow> None
      | other \<Rightarrow> other)"

section \<open>Effects: the world, its trace, and how a call ends\<close>

text \<open>
  Every call that reaches the file system is recorded, in order, with the path it was
  given. The trace is what lets a statement speak of the order of the checks and of
  which file was touched at all.
\<close>

datatype event =
    Exists path
  | Access_R path
  | Islink path
  | Realpath path
  | Isdir path
  | Sha1 path
  | Md5 path
  | Unlink path
  | Open_write path
  | Open_read path
  | Backup_local path
  | Append_to_file path
  | Set_fs_attributes path

record world =
  files :: filesystem
  trace :: "event list"

text \<open>
  A call ends by a Python exception (\<open>IOError\<close>, \<open>ValueError\<close>), by
  \<^verbatim>\<open>module.fail_json(msg=...)\<close> written in \<^verbatim>\<open>main\<close> (the process exits with that message),
  or by a \<^verbatim>\<open>fail_json\<close> raised inside one of the helpers of \<^verbatim>\<open>AnsibleModule\<close>, whose
  message text belongs to that library.
\<close>

datatype stop =
    IOError
  | ValueError
  | Fail_json string
  | Checksum_of_directory path
  | Backup_failed path

type_synonym 'a action = "world \<Rightarrow> (stop + 'a) \<times> world"

definition logged :: "event \<Rightarrow> world \<Rightarrow> world" where
  "logged e w = w\<lparr>trace := trace w @ [e]\<rparr>"

definition return :: "'a \<Rightarrow> 'a action" where
  "return a w = (Inr a, w)"

definition raise :: "stop \<Rightarrow> 'a action" where
  "raise e w = (Inl e, w)"

definition fail_json :: "string \<Rightarrow> 'a action" where
  "fail_json msg = raise (Fail_json msg)"

definition and_then :: "'a action \<Rightarrow> ('a \<Rightarrow> 'b action) \<Rightarrow> 'b action" where
  "and_then m f w = (case m w of (Inl e, w') \<Rightarrow> (Inl e, w') | (Inr a, w') \<Rightarrow> f a w')"

text \<open>\<^verbatim>\<open>try: m except x: h\<close>: only the exception \<open>x\<close> is caught.\<close>

definition try_except :: "'a action \<Rightarrow> stop \<Rightarrow> 'a action \<Rightarrow> 'a action" where
  "try_except m x h w =
     (case m w of
        (Inl e, w') \<Rightarrow> if e = x then h w' else (Inl e, w')
      | (Inr a, w') \<Rightarrow> (Inr a, w'))"

section \<open>The calls of the \<^verbatim>\<open>os\<close> module and of the built-in \<^verbatim>\<open>open\<close>\<close>

definition os_path_exists :: "path \<Rightarrow> bool action" where
  "os_path_exists p w = (Inr (stat (files w) p \<noteq> None), logged (Exists p) w)"

definition os_access_R_OK :: "path \<Rightarrow> bool action" where
  "os_access_R_OK p w =
     (Inr (case stat (files w) p of
             Some (File c r wr) \<Rightarrow> r
           | Some (Dir r) \<Rightarrow> r
           | _ \<Rightarrow> False),
      logged (Access_R p) w)"

definition os_path_islink :: "path \<Rightarrow> bool action" where
  "os_path_islink p w =
     (Inr (case files w p of Some (Link t) \<Rightarrow> True | _ \<Rightarrow> False), logged (Islink p) w)"

definition os_path_realpath :: "path \<Rightarrow> path action" where
  "os_path_realpath p w = (Inr (realpath (files w) maxsymlinks p), logged (Realpath p) w)"

definition os_path_isdir :: "path \<Rightarrow> bool action" where
  "os_path_isdir p w =
     (Inr (case stat (files w) p of Some (Dir r) \<Rightarrow> True | _ \<Rightarrow> False),
      logged (Isdir p) w)"

text \<open>\<^verbatim>\<open>os.unlink(p)\<close> removes the entry \<open>p\<close> itself, never the target of a link.\<close>

definition os_unlink :: "path \<Rightarrow> unit action" where
  "os_unlink p w = (Inr (), logged (Unlink p) (w\<lparr>files := (files w)(p := None)\<rparr>))"

text \<open>
  \<^verbatim>\<open>open(p, 'w').close()\<close>: the file the path leads to is created empty, or emptied.
\<close>

definition open_w_close :: "path \<Rightarrow> unit action" where
  "open_w_close p w =
     (let q = realpath (files w) maxsymlinks p; w' = logged (Open_write p) w in
      case files w q of
        None \<Rightarrow> (Inr (), w'\<lparr>files := (files w)(q \<mapsto> File [] True True)\<rparr>)
      | Some (File c r wr) \<Rightarrow>
          if wr then (Inr (), w'\<lparr>files := (files w)(q \<mapsto> File [] r wr)\<rparr>)
          else (Inl IOError, w')
      | Some (Dir r) \<Rightarrow> (Inl IOError, w')
      | Some (Link t) \<Rightarrow> (Inl IOError, w'))"

text \<open>\<^verbatim>\<open>with open(p, 'r') as f: f.read()\<close>: the whole content, or \<open>IOError\<close>.\<close>

definition open_r_read :: "path \<Rightarrow> string action" where
  "open_r_read p w =
     (case stat (files w) p of
        Some (File c r wr) \<Rightarrow> if r then Inr c else Inl IOError
      | _ \<Rightarrow> Inl IOError,
      logged (Open_read p) w)"

section \<open>The helpers of \<^verbatim>\<open>AnsibleModule\<close> that \<^verbatim>\<open>main\<close> calls\<close>

text \<open>
  What the host and the library give to one run: the expansion of \<open>~\<close> in a path, the
  two digest functions, whether MD5 is switched off (FIPS mode), the time stamp that a
  backup made now would carry, and the verdict of the file-attribute reconciliation.
\<close>

record env =
  expanduser :: "path \<Rightarrow> path"
  sha1_hex :: "string \<Rightarrow> string"
  md5_hex :: "string \<Rightarrow> string"
  fips_mode :: bool
  timestamp :: string
  attributes_differ :: bool

text \<open>
  Modelled from the spec: \<^verbatim>\<open>module.sha1\<close> and \<^verbatim>\<open>module.md5\<close> are methods of
  \<^verbatim>\<open>AnsibleModule\<close>, which is not part of this repository: the "digest primitives
  primary_digest(path), legacy_digest(path) (may fail with DigestUnavailable)". A digest
  is a function of the content of the file; the failure of the legacy digest is the
  \<open>ValueError\<close> that \<^verbatim>\<open>main\<close> catches. The spec says nothing of a path that is missing or
  a directory: there the library is followed (\<open>None\<close> for a missing file, a failure of
  its own for a directory).
\<close>

definition digest_from_file :: "(string \<Rightarrow> string) \<Rightarrow> path \<Rightarrow> string option action" where
  "digest_from_file h p w =
     (case stat (files w) p of
        None \<Rightarrow> (Inr None, w)
      | Some (Dir r) \<Rightarrow> (Inl (Checksum_of_directory p), w)
      | Some (File c r wr) \<Rightarrow> if r then (Inr (Some (h c)), w) else (Inl IOError, w)
      | Some (Link t) \<Rightarrow> (Inl IOError, w))"

definition module_sha1 :: "env \<Rightarrow> path \<Rightarrow> string option action" where
  "module_sha1 e p w = digest_from_file (sha1_hex e) p (logged (Sha1 p) w)"

definition module_md5 :: "env \<Rightarrow> path \<Rightarrow> string option action" where
  "module_md5 e p w =
     (if fips_mode e then (Inl ValueError, logged (Md5 p) w)
      else digest_from_file (md5_hex e) p (logged (Md5 p) w))"

text \<open>
  Modelled from the spec: \<^verbatim>\<open>module.backup_local\<close> is a method of \<^verbatim>\<open>AnsibleModule\<close>. The
  backup artifact is "a copy of the destination's pre-mutation content, named with an
  embedded timestamp": the name is the file's name, a dot and the time stamp. Copying
  reads the file, so a file that cannot be read has no backup, and the helper ends the
  run itself. Of a missing file there is nothing to copy and the name returned is empty.
\<close>

definition module_backup_local :: "env \<Rightarrow> path \<Rightarrow> string action" where
  "module_backup_local e p w =
     (let w' = logged (Backup_local p) w; b = p @ ''.'' @ timestamp e in
      case stat (files w) p of
        None \<Rightarrow> (Inr [], w')
      | Some (File c r wr) \<Rightarrow>
          if r then (Inr b, w'\<lparr>files := (files w)(b \<mapsto> File c r wr)\<rparr>)
          else (Inl (Backup_failed p), w')
      | Some (Dir r) \<Rightarrow> (Inl (Backup_failed p), w')
      | Some (Link t) \<Rightarrow> (Inl (Backup_failed p), w'))"

text \<open>
  Modelled from the spec: \<^verbatim>\<open>module.append_to_file\<close> is a method of \<^verbatim>\<open>AnsibleModule\<close>. It
  "appends source content verbatim to the end of destination": the file is opened in
  append mode (which creates a missing file) and the text is written after what is there.
\<close>

definition module_append_to_file :: "path \<Rightarrow> string \<Rightarrow> unit action" where
  "module_append_to_file p s w =
     (let q = realpath (files w) maxsymlinks p; w' = logged (Append_to_file p) w in
      case files w q of
        None \<Rightarrow> (Inr (), w'\<lparr>files := (files w)(q \<mapsto> File s True True)\<rparr>)
      | Some (File c r wr) \<Rightarrow>
          if wr then (Inr (), w'\<lparr>files := (files w)(q \<mapsto> File (c @ s) r wr)\<rparr>)
          else (Inl IOError, w')
      | Some (Dir r) \<Rightarrow> (Inl IOError, w')
      | Some (Link t) \<Rightarrow> (Inl IOError, w'))"

text \<open>
  Modelled from the spec: \<^verbatim>\<open>module.set_fs_attributes_if_different\<close> is a method of
  \<^verbatim>\<open>AnsibleModule\<close>. The collaborator "independently determines whether attribute changes
  occurred and that is OR-ed into the overall changed flag"; it touches owner, group and
  mode, never the content of a file. The attributes themselves are outside this model.
\<close>

definition module_set_fs_attributes_if_different :: "env \<Rightarrow> path \<Rightarrow> bool \<Rightarrow> bool action" where
  "module_set_fs_attributes_if_different e p changed w =
     (Inr (changed \<or> attributes_differ e), logged (Set_fs_attributes p) w)"

section \<open>The module \<^verbatim>\<open>concatfile\<close>\<close>

text \<open>
  \<^verbatim>\<open>module.params\<close> and \<^verbatim>\<open>module.check_mode\<close>, as far as \<^verbatim>\<open>main\<close> uses them. The
  parameters \<^verbatim>\<open>original_basename\<close>, \<^verbatim>\<open>follow\<close> and \<^verbatim>\<open>mode\<close> are read at lines 162 to 164
  and never used afterwards. The source is a path: the action plugin always supplies one.
\<close>

record params =
  param_src :: path
  param_dest :: path
  param_backup :: bool
  param_force :: bool
  check_mode :: bool

text \<open>The keyword arguments given to \<^verbatim>\<open>module.exit_json\<close>: a Python dictionary.\<close>

datatype pyvalue = PNone | PStr string | PBool bool

type_synonym result = "string \<Rightarrow> pyvalue option"

definition of_optional :: "string option \<Rightarrow> pyvalue" where
  "of_optional x = (case x of None \<Rightarrow> PNone | Some s \<Rightarrow> PStr s)"

text \<open>Python's truth of \<^verbatim>\<open>backup_file\<close>: neither \<open>None\<close> nor the empty string.\<close>

definition truthy :: "string option \<Rightarrow> bool" where
  "truthy x = (case x of None \<Rightarrow> False | Some s \<Rightarrow> s \<noteq> [])"

text \<open>Lines 167 to 170: the source must exist and be readable.\<close>

definition check_src :: "path \<Rightarrow> unit action" where
  "check_src src =
     and_then (os_path_exists src) (\<lambda>found.
     if \<not> found then fail_json (''Source '' @ src @ '' not found'')
     else and_then (os_access_R_OK src) (\<lambda>readable.
     if \<not> readable then fail_json (''Source '' @ src @ '' not readable'')
     else return ()))"

text \<open>
  Lines 172 to 178: the SHA-1 of the source, and its MD5 unless that raises
  \<open>ValueError\<close>.
\<close>

definition digests_of_src :: "env \<Rightarrow> path \<Rightarrow> (string option \<times> string option) action" where
  "digests_of_src e src =
     and_then (module_sha1 e src) (\<lambda>checksum_src.
     and_then (try_except (module_md5 e src) ValueError (return None)) (\<lambda>md5sum_src.
     return (checksum_src, md5sum_src)))"

text \<open>
  Lines 182 to 190: the destination must exist; a link is replaced by its real path; the
  real path must not be a directory; a readable destination is digested (the value is
  not used afterwards). The action returns the value of \<^verbatim>\<open>dest\<close> after these lines.
\<close>

definition check_dest :: "env \<Rightarrow> path \<Rightarrow> path action" where
  "check_dest e dest =
     and_then (os_path_exists dest) (\<lambda>found.
     if found then
       and_then (os_path_islink dest) (\<lambda>link.
       and_then (if link then os_path_realpath dest else return dest) (\<lambda>dest.
       and_then (os_path_isdir dest) (\<lambda>dir.
       if dir then fail_json (''Source '' @ dest @ '' is directory, must be file'')
       else and_then (os_access_R_OK dest) (\<lambda>readable.
       and_then (if readable then module_sha1 e dest else return None) (\<lambda>checksum_dest.
       return dest)))))
     else fail_json (''Destination '' @ dest @ '' doesn't exists''))"

text \<open>
  Lines 207 to 210 and again 212 to 215: the backup when asked for, then the append. The
  action returns \<^verbatim>\<open>(changed, backup_file)\<close>.
\<close>

definition backup_and_append ::
  "env \<Rightarrow> bool \<Rightarrow> path \<Rightarrow> string \<Rightarrow> (bool \<times> string option) action" where
  "backup_and_append e backup dest sourcefile =
     and_then (if backup then and_then (module_backup_local e dest) (\<lambda>b. return (Some b))
               else return None) (\<lambda>backup_file.
     and_then (module_append_to_file dest sourcefile) (\<lambda>_.
     return (True, backup_file)))"

text \<open>Lines 194 to 222: the body of the \<^verbatim>\<open>try\<close> block.\<close>

definition try_body :: "env \<Rightarrow> params \<Rightarrow> path \<Rightarrow> path \<Rightarrow> (bool \<times> string option) action" where
  "try_body e prm src dest =
     and_then (os_path_islink dest) (\<lambda>link.
     and_then (if link then and_then (os_unlink dest) (\<lambda>_. open_w_close dest)
               else return ()) (\<lambda>_.
     and_then (open_r_read src) (\<lambda>sourcefile.
     if \<not> param_force prm \<and> \<not> check_mode prm then
       and_then (open_r_read dest) (\<lambda>destfile.
       if sublist sourcefile destfile then return (False, None)
       else backup_and_append e (param_backup prm) dest sourcefile)
     else if \<not> check_mode prm then
       backup_and_append e (param_backup prm) dest sourcefile
     else
       and_then (open_r_read dest) (\<lambda>destfile.
       if sublist sourcefile destfile then return (False, None)
       else return (True, None)))))"

text \<open>Lines 226 to 230: the dictionary \<^verbatim>\<open>res_args\<close>.\<close>

definition res_args ::
  "path \<Rightarrow> path \<Rightarrow> string option \<Rightarrow> string option \<Rightarrow> bool \<Rightarrow> bool \<Rightarrow> string option \<Rightarrow> result" where
  "res_args dest src md5sum_src checksum_src check changed backup_file =
     (let d = [''dest'' \<mapsto> PStr dest, ''src'' \<mapsto> PStr src,
               ''md5sum'' \<mapsto> of_optional md5sum_src,
               ''checksum'' \<mapsto> of_optional checksum_src,
               ''check'' \<mapsto> PBool check, ''changed'' \<mapsto> PBool changed]
      in if truthy backup_file then d(''backup_file'' \<mapsto> of_optional backup_file) else d)"

text \<open>
  Lines 226 to 235: the dictionary is completed, the file-attribute reconciliation has
  its say on \<^verbatim>\<open>changed\<close>, and \<^verbatim>\<open>module.exit_json\<close> receives the dictionary.
\<close>

definition exit_with_res_args ::
  "env \<Rightarrow> params \<Rightarrow> path \<Rightarrow> path \<Rightarrow> string option \<Rightarrow> string option \<Rightarrow> bool \<Rightarrow>
   string option \<Rightarrow> result action" where
  "exit_with_res_args e prm dest src md5sum_src checksum_src changed backup_file =
     (let d = res_args dest src md5sum_src checksum_src (check_mode prm) changed backup_file
      in
      and_then (module_set_fs_attributes_if_different e (expanduser e (param_dest prm)) changed)
        (\<lambda>changed'.
      return (d(''changed'' \<mapsto> PBool changed'))))"

text \<open>
  The whole of \<^verbatim>\<open>main\<close>. The result is what \<^verbatim>\<open>module.exit_json\<close> receives, or how the run
  stopped, and the world after the run.
\<close>

definition main :: "env \<Rightarrow> params \<Rightarrow> result action" where
  "main e prm =
     (let src = param_src prm;
          dest = expanduser e (param_dest prm)
      in
      and_then (check_src src) (\<lambda>_.
      and_then (digests_of_src e src) (\<lambda>(checksum_src, md5sum_src).
      and_then (check_dest e dest) (\<lambda>dest.
      and_then (try_except (try_body e prm src dest) IOError
                  (fail_json (''failed to append: '' @ src @ '' to '' @ dest)))
        (\<lambda>(changed, backup_file).
      exit_with_res_args e prm dest src md5sum_src checksum_src changed backup_file)))))"

text \<open>A world before any run: the given files and an empty trace.\<close>

definition initially :: "filesystem \<Rightarrow> world" where
  "initially fs = \<lparr>files = fs, trace = []\<rparr>"

text \<open>
  The events of a run up to the \<^verbatim>\<open>try\<close> block, when the source is a readable file and the
  destination leads to a file: lines 167 to 188 in their order.
\<close>

definition events_before_try :: "filesystem \<Rightarrow> path \<Rightarrow> path \<Rightarrow> bool \<Rightarrow> event list" where
  "events_before_try fs src dest r =
     [Exists src, Access_R src, Sha1 src, Md5 src, Exists dest, Islink dest] @
     (case fs dest of Some (Link t) \<Rightarrow> [Realpath dest] | _ \<Rightarrow> []) @
     [Isdir (realpath fs maxsymlinks dest), Access_R (realpath fs maxsymlinks dest)] @
     (if r then [Sha1 (realpath fs maxsymlinks dest)] else [])"

text \<open>
  Following the words of the spec (section 4.2, resolution step): "the directory check
  happens before resolution", on the destination path as supplied. On a trace: the
  supplied path is tested for being a directory before it is resolved.
\<close>

definition directory_check_before_resolution :: "event list \<Rightarrow> path \<Rightarrow> bool" where
  "directory_check_before_resolution tr dest =
     (Isdir dest \<in> set (takeWhile (\<lambda>ev. ev \<noteq> Realpath dest) tr))"

section \<open>A host to run on\<close>

text \<open>
  One small host for the concrete runs below: a source, a destination that already holds
  the source's text, one that does not, a link to a file, a link to a directory, a
  read-only file, a file that may be appended to but not read, and a source that may not
  be read.
\<close>

definition host_files :: filesystem where
  "host_files =
     [''/src'' \<mapsto> File ''alias'' True True,
      ''/rc'' \<mapsto> File ''alias'' True True,
      ''/profile'' \<mapsto> File ''export'' True True,
      ''/link'' \<mapsto> Link ''/rc'',
      ''/home'' \<mapsto> Dir True,
      ''/dirlink'' \<mapsto> Link ''/home'',
      ''/readonly'' \<mapsto> File ''export'' True False,
      ''/writeonly'' \<mapsto> File ''export'' False True,
      ''/secret'' \<mapsto> File ''alias'' False True]"

definition host_env :: env where
  "host_env =
     \<lparr>expanduser = (\<lambda>p. p),
      sha1_hex = (\<lambda>c. ''sha1:'' @ c),
      md5_hex = (\<lambda>c. ''md5:'' @ c),
      fips_mode = False,
      timestamp = ''2015-02-12@22:09:00~'',
      attributes_differ = False\<rparr>"

definition task :: "path \<Rightarrow> path \<Rightarrow> bool \<Rightarrow> bool \<Rightarrow> bool \<Rightarrow> params" where
  "task src dest backup force check =
     \<lparr>param_src = src, param_dest = dest, param_backup = backup, param_force = force,
      check_mode = check\<rparr>"

section \<open>Paths, links and lookups\<close>

lemma realpath_file: "fs p = Some (File c r wr) \<Longrightarrow> realpath fs n p = p"
  by (cases n) simp_all

lemma realpath_dir: "fs p = Some (Dir r) \<Longrightarrow> realpath fs n p = p"
  by (cases n) simp_all

lemma realpath_missing: "fs p = None \<Longrightarrow> realpath fs n p = p"
  by (cases n) simp_all

lemma realpath_unless_link:
  "(case fs p of Some (Link t) \<Rightarrow> False | _ \<Rightarrow> True) \<Longrightarrow> realpath fs n p = p"
  by (cases n) (auto split: option.splits node.splits)

lemma realpath_one_link:
  assumes "fs p = Some (Link t)"
    and "case fs t of Some (Link t') \<Rightarrow> False | _ \<Rightarrow> True"
  shows "realpath fs maxsymlinks p = t"
proof -
  have "realpath fs (Suc 39) p = realpath fs 39 t"
    by (subst realpath.simps(2)) (simp add: assms(1))
  moreover have "realpath fs 39 t = t"
    using assms(2) by (rule realpath_unless_link)
  moreover have "maxsymlinks = Suc 39"
    by (simp add: maxsymlinks_def)
  ultimately show ?thesis by (simp only:)
qed

lemma stat_file: "fs p = Some (File c r wr) \<Longrightarrow> stat fs p = Some (File c r wr)"
  by (simp add: stat_def realpath_file)

lemma stat_dir: "fs p = Some (Dir r) \<Longrightarrow> stat fs p = Some (Dir r)"
  by (simp add: stat_def realpath_dir)

lemma stat_missing: "fs p = None \<Longrightarrow> stat fs p = None"
  by (simp add: stat_def realpath_missing)

lemma stat_realpath: "stat fs p = Some nd \<Longrightarrow> fs (realpath fs maxsymlinks p) = Some nd"
  by (auto simp: stat_def split: option.splits node.splits)

lemma stat_not_link: "stat fs p \<noteq> Some (Link t)"
  by (auto simp: stat_def split: option.splits node.splits)

lemma stat_link_differs:
  assumes "fs p = Some (Link t)" and "stat fs p = Some nd"
  shows "realpath fs maxsymlinks p \<noteq> p"
proof
  assume "realpath fs maxsymlinks p = p"
  with assms(2) have "fs p = Some nd" using stat_realpath by fastforce
  with assms show False by (simp add: stat_not_link)
qed

section \<open>The phases of a run, one by one\<close>

lemma check_src_missing:
  "stat (files w) src = None \<Longrightarrow>
   check_src src w =
     (Inl (Fail_json (''Source '' @ src @ '' not found'')), w\<lparr>trace := trace w @ [Exists src]\<rparr>)"
  by (simp add: check_src_def and_then_def os_path_exists_def fail_json_def raise_def logged_def)

lemma check_src_unreadable:
  "stat (files w) src = Some (File s False ws) \<or> stat (files w) src = Some (Dir False) \<Longrightarrow>
   check_src src w =
     (Inl (Fail_json (''Source '' @ src @ '' not readable'')),
      w\<lparr>trace := trace w @ [Exists src, Access_R src]\<rparr>)"
  by (auto simp: check_src_def and_then_def os_path_exists_def os_access_R_OK_def
      fail_json_def raise_def logged_def)

lemma check_src_ok:
  "stat (files w) src = Some (File s True ws) \<or> stat (files w) src = Some (Dir True) \<Longrightarrow>
   check_src src w = (Inr (), w\<lparr>trace := trace w @ [Exists src, Access_R src]\<rparr>)"
  by (auto simp: check_src_def and_then_def os_path_exists_def os_access_R_OK_def
      return_def logged_def)

lemma digests_of_src_ok:
  "stat (files w) src = Some (File s True ws) \<Longrightarrow>
   digests_of_src e src w =
     (Inr (Some (sha1_hex e s), if fips_mode e then None else Some (md5_hex e s)),
      w\<lparr>trace := trace w @ [Sha1 src, Md5 src]\<rparr>)"
  by (simp add: digests_of_src_def and_then_def try_except_def module_sha1_def module_md5_def
      digest_from_file_def return_def logged_def)

lemma digests_of_src_directory:
  "stat (files w) src = Some (Dir r) \<Longrightarrow>
   digests_of_src e src w =
     (Inl (Checksum_of_directory src), w\<lparr>trace := trace w @ [Sha1 src]\<rparr>)"
  by (simp add: digests_of_src_def and_then_def module_sha1_def digest_from_file_def logged_def)

lemma check_dest_missing:
  "stat (files w) dest = None \<Longrightarrow>
   check_dest e dest w =
     (Inl (Fail_json (''Destination '' @ dest @ '' doesn't exists'')),
      w\<lparr>trace := trace w @ [Exists dest]\<rparr>)"
  by (simp add: check_dest_def and_then_def os_path_exists_def fail_json_def raise_def
      logged_def)

lemma check_dest_directory:
  assumes "stat (files w) dest = Some (Dir r)"
  shows "check_dest e dest w =
     (Inl (Fail_json (''Source '' @ realpath (files w) maxsymlinks dest @
             '' is directory, must be file'')),
      w\<lparr>trace := trace w @ [Exists dest, Islink dest] @
          (case files w dest of Some (Link t) \<Rightarrow> [Realpath dest] | _ \<Rightarrow> []) @
          [Isdir (realpath (files w) maxsymlinks dest)]\<rparr>)"
proof -
  let ?q = "realpath (files w) maxsymlinks dest"
  have q: "files w ?q = Some (Dir r)"
    using assms by (rule stat_realpath)
  have sq: "stat (files w) ?q = Some (Dir r)"
    using q by (rule stat_dir)
  show ?thesis
  proof (cases "files w dest")
    case None
    then show ?thesis using assms by (simp add: stat_missing)
  next
    case (Some nd)
    show ?thesis
    proof (cases nd)
      case (File c r' wr')
      with Some assms show ?thesis by (simp add: stat_file)
    next
      case (Dir r')
      with Some have "?q = dest" by (simp add: realpath_dir)
      with Some Dir assms sq show ?thesis
        by (simp add: check_dest_def and_then_def os_path_exists_def os_path_islink_def
            os_path_isdir_def fail_json_def raise_def return_def logged_def)
    next
      case (Link t)
      with Some assms sq show ?thesis
        by (simp add: check_dest_def and_then_def os_path_exists_def os_path_islink_def
            os_path_realpath_def os_path_isdir_def fail_json_def raise_def return_def
            logged_def)
    qed
  qed
qed

lemma check_dest_file:
  assumes "stat (files w) dest = Some (File d r wr)"
  shows "check_dest e dest w =
     (Inr (realpath (files w) maxsymlinks dest),
      w\<lparr>trace := trace w @ [Exists dest, Islink dest] @
          (case files w dest of Some (Link t) \<Rightarrow> [Realpath dest] | _ \<Rightarrow> []) @
          [Isdir (realpath (files w) maxsymlinks dest),
           Access_R (realpath (files w) maxsymlinks dest)] @
          (if r then [Sha1 (realpath (files w) maxsymlinks dest)] else [])\<rparr>)"
proof -
  let ?q = "realpath (files w) maxsymlinks dest"
  have q: "files w ?q = Some (File d r wr)"
    using assms by (rule stat_realpath)
  have sq: "stat (files w) ?q = Some (File d r wr)"
    using q by (rule stat_file)
  show ?thesis
  proof (cases "files w dest")
    case None
    then show ?thesis using assms by (simp add: stat_missing)
  next
    case (Some nd)
    show ?thesis
    proof (cases nd)
      case (File c r' wr')
      with Some have "?q = dest" by (simp add: realpath_file)
      with Some File assms sq show ?thesis
        by (simp add: check_dest_def and_then_def os_path_exists_def os_path_islink_def
            os_path_isdir_def os_access_R_OK_def module_sha1_def digest_from_file_def
            return_def logged_def)
    next
      case (Dir r')
      with Some assms show ?thesis by (simp add: stat_dir)
    next
      case (Link t)
      with Some assms sq show ?thesis
        by (simp add: check_dest_def and_then_def os_path_exists_def os_path_islink_def
            os_path_realpath_def os_path_isdir_def os_access_R_OK_def module_sha1_def
            digest_from_file_def return_def logged_def)
    qed
  qed
qed

lemma backup_and_append_file:
  assumes "files w q = Some (File d r wr)"
  shows "backup_and_append e backup q s w =
    (if backup then
       if r then
         if wr then
           (Inr (True, Some (q @ ''.'' @ timestamp e)),
            w\<lparr>files := (files w)(q @ ''.'' @ timestamp e \<mapsto> File d r wr,
                              q \<mapsto> File (d @ s) r wr),
              trace := trace w @ [Backup_local q, Append_to_file q]\<rparr>)
         else
           (Inl IOError,
            w\<lparr>files := (files w)(q @ ''.'' @ timestamp e \<mapsto> File d r wr),
              trace := trace w @ [Backup_local q, Append_to_file q]\<rparr>)
       else (Inl (Backup_failed q), w\<lparr>trace := trace w @ [Backup_local q]\<rparr>)
     else
       if wr then
         (Inr (True, None),
          w\<lparr>files := (files w)(q \<mapsto> File (d @ s) r wr),
            trace := trace w @ [Append_to_file q]\<rparr>)
       else (Inl IOError, w\<lparr>trace := trace w @ [Append_to_file q]\<rparr>))"
  using assms
  by (simp add: backup_and_append_def and_then_def return_def module_backup_local_def
      module_append_to_file_def logged_def stat_file realpath_file Let_def)

lemma try_body_file:
  assumes "files w q = Some (File d r wr)"
    and "stat (files w) src = Some (File s True ws)"
  shows "try_body e prm src q w =
    (if param_force prm \<and> \<not> check_mode prm then
       backup_and_append e (param_backup prm) q s
         (w\<lparr>trace := trace w @ [Islink q, Open_read src]\<rparr>)
     else if \<not> r then
       (Inl IOError, w\<lparr>trace := trace w @ [Islink q, Open_read src, Open_read q]\<rparr>)
     else if sublist s d then
       (Inr (False, None), w\<lparr>trace := trace w @ [Islink q, Open_read src, Open_read q]\<rparr>)
     else if check_mode prm then
       (Inr (True, None), w\<lparr>trace := trace w @ [Islink q, Open_read src, Open_read q]\<rparr>)
     else
       backup_and_append e (param_backup prm) q s
         (w\<lparr>trace := trace w @ [Islink q, Open_read src, Open_read q]\<rparr>))"
  using assms
  by (simp add: try_body_def and_then_def return_def os_path_islink_def open_r_read_def
      logged_def stat_file)

lemma exit_with_res_args_eq:
  "exit_with_res_args e prm dest src m c changed bf w =
     (Inr ((res_args dest src m c (check_mode prm) changed bf)
             (''changed'' \<mapsto> PBool (changed \<or> attributes_differ e))),
      w\<lparr>trace := trace w @ [Set_fs_attributes (expanduser e (param_dest prm))]\<rparr>)"
  by (simp add: exit_with_res_args_def and_then_def return_def
      module_set_fs_attributes_if_different_def logged_def Let_def)

section \<open>The run as a whole, case by case\<close>

lemma main_src_missing:
  assumes "stat (files w) (param_src prm) = None"
  shows "main e prm w =
     (Inl (Fail_json (''Source '' @ param_src prm @ '' not found'')),
      w\<lparr>trace := trace w @ [Exists (param_src prm)]\<rparr>)"
  unfolding main_def Let_def
  by (subst and_then_def) (simp add: check_src_missing [OF assms])

lemma main_src_unreadable:
  assumes "stat (files w) (param_src prm) = Some (File s False ws) \<or>
           stat (files w) (param_src prm) = Some (Dir False)"
  shows "main e prm w =
     (Inl (Fail_json (''Source '' @ param_src prm @ '' not readable'')),
      w\<lparr>trace := trace w @ [Exists (param_src prm), Access_R (param_src prm)]\<rparr>)"
  unfolding main_def Let_def
  by (subst and_then_def) (simp add: check_src_unreadable [OF assms])

lemma main_src_directory:
  assumes "stat (files w) (param_src prm) = Some (Dir True)"
  shows "main e prm w =
     (Inl (Checksum_of_directory (param_src prm)),
      w\<lparr>trace := trace w @
          [Exists (param_src prm), Access_R (param_src prm), Sha1 (param_src prm)]\<rparr>)"
proof -
  have 1: "check_src (param_src prm) w =
      (Inr (), w\<lparr>trace := trace w @ [Exists (param_src prm), Access_R (param_src prm)]\<rparr>)"
    using assms by (simp add: check_src_ok)
  show ?thesis
    unfolding main_def Let_def
    apply (subst and_then_def)
    apply (simp only: 1 prod.case sum.case)
    apply (subst and_then_def)
    apply (subst digests_of_src_directory [where r = True])
     apply (simp add: assms)
    apply simp
    done
qed

lemma main_after_src:
  assumes "stat (files w) (param_src prm) = Some (File s True ws)"
  shows "main e prm w =
    and_then (check_dest e (expanduser e (param_dest prm))) (\<lambda>dest.
    and_then (try_except (try_body e prm (param_src prm) dest) IOError
                (fail_json (''failed to append: '' @ param_src prm @ '' to '' @ dest)))
      (\<lambda>(changed, backup_file).
         exit_with_res_args e prm dest (param_src prm)
           (if fips_mode e then None else Some (md5_hex e s))
           (Some (sha1_hex e s)) changed backup_file))
      (w\<lparr>trace := trace w @
          [Exists (param_src prm), Access_R (param_src prm), Sha1 (param_src prm),
           Md5 (param_src prm)]\<rparr>)"
proof -
  have 1: "check_src (param_src prm) w =
      (Inr (), w\<lparr>trace := trace w @ [Exists (param_src prm), Access_R (param_src prm)]\<rparr>)"
    using assms by (simp add: check_src_ok)
  show ?thesis
    unfolding main_def Let_def
    apply (subst and_then_def)
    apply (simp only: 1 prod.case sum.case)
    apply (subst and_then_def)
    apply (subst digests_of_src_ok [where s = s and ws = ws])
     apply (simp add: assms)
    apply simp
    done
qed

lemma main_dest_missing:
  assumes "stat (files w) (param_src prm) = Some (File s True ws)"
    and "stat (files w) (expanduser e (param_dest prm)) = None"
  shows "main e prm w =
     (Inl (Fail_json (''Destination '' @ expanduser e (param_dest prm) @ '' doesn't exists'')),
      w\<lparr>trace := trace w @
          [Exists (param_src prm), Access_R (param_src prm), Sha1 (param_src prm),
           Md5 (param_src prm), Exists (expanduser e (param_dest prm))]\<rparr>)"
  apply (subst main_after_src [OF assms(1)])
  apply (subst and_then_def)
  apply (subst check_dest_missing)
   apply (simp add: assms(2))
  apply simp
  done

lemma main_dest_directory:
  assumes "stat (files w) (param_src prm) = Some (File s True ws)"
    and "stat (files w) (expanduser e (param_dest prm)) = Some (Dir r)"
  shows "main e prm w =
     (Inl (Fail_json (''Source '' @
             realpath (files w) maxsymlinks (expanduser e (param_dest prm)) @
             '' is directory, must be file'')),
      w\<lparr>trace := trace w @
          [Exists (param_src prm), Access_R (param_src prm), Sha1 (param_src prm),
           Md5 (param_src prm), Exists (expanduser e (param_dest prm)),
           Islink (expanduser e (param_dest prm))] @
          (case files w (expanduser e (param_dest prm)) of
             Some (Link t) \<Rightarrow> [Realpath (expanduser e (param_dest prm))]
           | _ \<Rightarrow> []) @
          [Isdir (realpath (files w) maxsymlinks (expanduser e (param_dest prm)))]\<rparr>)"
  apply (subst main_after_src [OF assms(1)])
  apply (subst and_then_def)
  apply (subst check_dest_directory [where r = r])
   apply (simp add: assms(2))
  apply simp
  done

lemma main_reaches_try:
  assumes "stat (files w) (param_src prm) = Some (File s True ws)"
    and "stat (files w) (expanduser e (param_dest prm)) = Some (File d r wr)"
  shows "main e prm w =
    and_then
      (try_except
         (try_body e prm (param_src prm)
            (realpath (files w) maxsymlinks (expanduser e (param_dest prm))))
         IOError
         (fail_json (''failed to append: '' @ param_src prm @ '' to '' @
            realpath (files w) maxsymlinks (expanduser e (param_dest prm)))))
      (\<lambda>(changed, backup_file).
         exit_with_res_args e prm
           (realpath (files w) maxsymlinks (expanduser e (param_dest prm)))
           (param_src prm)
           (if fips_mode e then None else Some (md5_hex e s))
           (Some (sha1_hex e s)) changed backup_file)
      (w\<lparr>trace := trace w @
          events_before_try (files w) (param_src prm) (expanduser e (param_dest prm)) r\<rparr>)"
  apply (subst main_after_src [OF assms(1)])
  apply (subst and_then_def)
  apply (subst check_dest_file [where d = d and r = r and wr = wr])
   apply (simp add: assms(2))
  apply (simp add: events_before_try_def)
  done


text \<open>The four ways a run goes on once both files are there.\<close>

lemma main_content_present:
  assumes "stat (files w) (param_src prm) = Some (File s True ws)"
    and "stat (files w) (expanduser e (param_dest prm)) = Some (File d True wr)"
    and "sublist s d"
    and "check_mode prm \<or> \<not> param_force prm"
  shows "main e prm w =
    (Inr ((res_args (realpath (files w) maxsymlinks (expanduser e (param_dest prm)))
             (param_src prm) (if fips_mode e then None else Some (md5_hex e s))
             (Some (sha1_hex e s)) (check_mode prm) False None)
          (''changed'' \<mapsto> PBool (attributes_differ e))),
     w\<lparr>trace := trace w @
         events_before_try (files w) (param_src prm) (expanduser e (param_dest prm)) True @
         [Islink (realpath (files w) maxsymlinks (expanduser e (param_dest prm))),
          Open_read (param_src prm),
          Open_read (realpath (files w) maxsymlinks (expanduser e (param_dest prm))),
          Set_fs_attributes (expanduser e (param_dest prm))]\<rparr>)"
proof -
  let ?q = "realpath (files w) maxsymlinks (expanduser e (param_dest prm))"
  have q: "files w ?q = Some (File d True wr)"
    using assms(2) by (rule stat_realpath)
  show ?thesis
    apply (subst main_reaches_try [OF assms(1,2)])
    apply (subst and_then_def)
    apply (subst try_except_def)
    apply (subst try_body_file [where d = d and r = True and wr = wr and s = s and ws = ws])
      apply (simp add: q)
     apply (simp add: assms(1))
    using assms(3,4)
    apply (auto simp add: exit_with_res_args_eq)
    done
qed

lemma main_check_content_absent:
  assumes "stat (files w) (param_src prm) = Some (File s True ws)"
    and "stat (files w) (expanduser e (param_dest prm)) = Some (File d True wr)"
    and "\<not> sublist s d"
    and "check_mode prm"
  shows "main e prm w =
    (Inr ((res_args (realpath (files w) maxsymlinks (expanduser e (param_dest prm)))
             (param_src prm) (if fips_mode e then None else Some (md5_hex e s))
             (Some (sha1_hex e s)) True True None)
          (''changed'' \<mapsto> PBool True)),
     w\<lparr>trace := trace w @
         events_before_try (files w) (param_src prm) (expanduser e (param_dest prm)) True @
         [Islink (realpath (files w) maxsymlinks (expanduser e (param_dest prm))),
          Open_read (param_src prm),
          Open_read (realpath (files w) maxsymlinks (expanduser e (param_dest prm))),
          Set_fs_attributes (expanduser e (param_dest prm))]\<rparr>)"
proof -
  let ?q = "realpath (files w) maxsymlinks (expanduser e (param_dest prm))"
  have q: "files w ?q = Some (File d True wr)"
    using assms(2) by (rule stat_realpath)
  show ?thesis
    apply (subst main_reaches_try [OF assms(1,2)])
    apply (subst and_then_def)
    apply (subst try_except_def)
    apply (subst try_body_file [where d = d and r = True and wr = wr and s = s and ws = ws])
      apply (simp add: q)
     apply (simp add: assms(1))
    using assms(3,4)
    apply (auto simp add: exit_with_res_args_eq)
    done
qed

lemma main_dest_unreadable:
  assumes "stat (files w) (param_src prm) = Some (File s True ws)"
    and "stat (files w) (expanduser e (param_dest prm)) = Some (File d False wr)"
    and "check_mode prm \<or> \<not> param_force prm"
  shows "main e prm w =
    (Inl (Fail_json (''failed to append: '' @ param_src prm @ '' to '' @
            realpath (files w) maxsymlinks (expanduser e (param_dest prm)))),
     w\<lparr>trace := trace w @
         events_before_try (files w) (param_src prm) (expanduser e (param_dest prm)) False @
         [Islink (realpath (files w) maxsymlinks (expanduser e (param_dest prm))),
          Open_read (param_src prm),
          Open_read (realpath (files w) maxsymlinks (expanduser e (param_dest prm)))]\<rparr>)"
proof -
  let ?q = "realpath (files w) maxsymlinks (expanduser e (param_dest prm))"
  have q: "files w ?q = Some (File d False wr)"
    using assms(2) by (rule stat_realpath)
  show ?thesis
    apply (subst main_reaches_try [OF assms(1,2)])
    apply (subst and_then_def)
    apply (subst try_except_def)
    apply (subst try_body_file [where d = d and r = False and wr = wr and s = s and ws = ws])
      apply (simp add: q)
     apply (simp add: assms(1))
    using assms(3)
    apply (auto simp add: fail_json_def raise_def)
    done
qed

lemma main_appends:
  assumes "stat (files w) (param_src prm) = Some (File s True ws)"
    and "stat (files w) (expanduser e (param_dest prm)) = Some (File d r wr)"
    and "\<not> check_mode prm"
    and "param_force prm \<or> (r \<and> \<not> sublist s d)"
  shows "main e prm w =
    (let src = param_src prm;
         q = realpath (files w) maxsymlinks (expanduser e (param_dest prm));
         b = q @ ''.'' @ timestamp e;
         md5sum_src = (if fips_mode e then None else Some (md5_hex e s));
         before = events_before_try (files w) src (expanduser e (param_dest prm)) r @
           [Islink q, Open_read src] @ (if param_force prm then [] else [Open_read q])
     in
     if param_backup prm then
       if r then
         if wr then
           (Inr ((res_args q src md5sum_src (Some (sha1_hex e s)) False True (Some b))
                 (''changed'' \<mapsto> PBool True)),
            w\<lparr>files := (files w)(b \<mapsto> File d r wr, q \<mapsto> File (d @ s) r wr),
              trace := trace w @ before @
                [Backup_local q, Append_to_file q,
                 Set_fs_attributes (expanduser e (param_dest prm))]\<rparr>)
         else
           (Inl (Fail_json (''failed to append: '' @ src @ '' to '' @ q)),
            w\<lparr>files := (files w)(b \<mapsto> File d r wr),
              trace := trace w @ before @ [Backup_local q, Append_to_file q]\<rparr>)
       else (Inl (Backup_failed q), w\<lparr>trace := trace w @ before @ [Backup_local q]\<rparr>)
     else
       if wr then
         (Inr ((res_args q src md5sum_src (Some (sha1_hex e s)) False True None)
               (''changed'' \<mapsto> PBool True)),
          w\<lparr>files := (files w)(q \<mapsto> File (d @ s) r wr),
            trace := trace w @ before @
              [Append_to_file q, Set_fs_attributes (expanduser e (param_dest prm))]\<rparr>)
       else
         (Inl (Fail_json (''failed to append: '' @ src @ '' to '' @ q)),
          w\<lparr>trace := trace w @ before @ [Append_to_file q]\<rparr>))"
proof -
  let ?q = "realpath (files w) maxsymlinks (expanduser e (param_dest prm))"
  have q: "files w ?q = Some (File d r wr)"
    using assms(2) by (rule stat_realpath)
  show ?thesis
    apply (subst main_reaches_try [OF assms(1,2)])
    apply (subst and_then_def)
    apply (subst try_except_def)
    apply (subst try_body_file [where d = d and r = r and wr = wr and s = s and ws = ws])
      apply (simp add: q)
     apply (simp add: assms(1))
    apply (subst backup_and_append_file [where d = d and r = r and wr = wr])
     apply (simp add: q)
    apply (subst backup_and_append_file [where d = d and r = r and wr = wr])
     apply (simp add: q)
    using assms(3,4)
    apply (auto simp add: exit_with_res_args_eq fail_json_def raise_def Let_def)
    done
qed

section \<open>The host of the concrete runs\<close>

lemma host_files_simps:
  "host_files ''/src'' = Some (File ''alias'' True True)"
  "host_files ''/rc'' = Some (File ''alias'' True True)"
  "host_files ''/profile'' = Some (File ''export'' True True)"
  "host_files ''/link'' = Some (Link ''/rc'')"
  "host_files ''/home'' = Some (Dir True)"
  "host_files ''/dirlink'' = Some (Link ''/home'')"
  "host_files ''/readonly'' = Some (File ''export'' True False)"
  "host_files ''/writeonly'' = Some (File ''export'' False True)"
  "host_files ''/secret'' = Some (File ''alias'' False True)"
  "host_files ''/nowhere'' = None"
  "host_files ''/profile.2015-02-12@22:09:00~'' = None"
  "host_files ''/readonly.2015-02-12@22:09:00~'' = None"
  by (simp_all add: host_files_def)

lemma host_realpath_simps:
  "realpath host_files maxsymlinks ''/src'' = ''/src''"
  "realpath host_files maxsymlinks ''/rc'' = ''/rc''"
  "realpath host_files maxsymlinks ''/profile'' = ''/profile''"
  "realpath host_files maxsymlinks ''/link'' = ''/rc''"
  "realpath host_files maxsymlinks ''/dirlink'' = ''/home''"
  "realpath host_files maxsymlinks ''/home'' = ''/home''"
  "realpath host_files maxsymlinks ''/readonly'' = ''/readonly''"
  "realpath host_files maxsymlinks ''/writeonly'' = ''/writeonly''"
  "realpath host_files maxsymlinks ''/secret'' = ''/secret''"
  "realpath host_files maxsymlinks ''/nowhere'' = ''/nowhere''"
  by (simp_all add: host_files_simps realpath_unless_link
      realpath_one_link [where t = "''/rc''"] realpath_one_link [where t = "''/home''"])

lemma host_stat_simps:
  "stat host_files ''/src'' = Some (File ''alias'' True True)"
  "stat host_files ''/rc'' = Some (File ''alias'' True True)"
  "stat host_files ''/profile'' = Some (File ''export'' True True)"
  "stat host_files ''/link'' = Some (File ''alias'' True True)"
  "stat host_files ''/home'' = Some (Dir True)"
  "stat host_files ''/dirlink'' = Some (Dir True)"
  "stat host_files ''/readonly'' = Some (File ''export'' True False)"
  "stat host_files ''/writeonly'' = Some (File ''export'' False True)"
  "stat host_files ''/secret'' = Some (File ''alias'' False True)"
  "stat host_files ''/nowhere'' = None"
  by (simp_all add: stat_def host_realpath_simps host_files_simps)

section \<open>What a successful run tells\<close>

lemma main_cases:
  assumes "stat (files w) (param_src prm) = Some (File s True ws)"
    and "stat (files w) (expanduser e (param_dest prm)) = Some (File d r wr)"
  obtains (appends) "\<not> check_mode prm" "param_force prm \<or> (r \<and> \<not> sublist s d)"
    | (unreadable) "check_mode prm \<or> \<not> param_force prm" "\<not> r"
    | (present) "check_mode prm \<or> \<not> param_force prm" "r" "sublist s d"
    | (absent) "check_mode prm" "r" "\<not> sublist s d"
  by blast

lemma main_success_needs_files:
  assumes "main e prm w = (Inr res, w')"
  shows "\<exists>s ws d r wr.
    stat (files w) (param_src prm) = Some (File s True ws) \<and>
    stat (files w) (expanduser e (param_dest prm)) = Some (File d r wr)"
proof (cases "stat (files w) (param_src prm)")
  case None
  then show ?thesis
    using assms main_src_missing [of w prm e] by simp
next
  case (Some nd)
  show ?thesis
  proof (cases nd)
    case (Link t)
    with Some show ?thesis by (simp add: stat_not_link)
  next
    case (Dir r)
    with Some show ?thesis
      using assms main_src_unreadable [of w prm undefined undefined e]
        main_src_directory [of w prm e]
      by (cases r) simp_all
  next
    case (File s r ws)
    show ?thesis
    proof (cases r)
      case False
      with Some File show ?thesis
        using assms main_src_unreadable [of w prm s ws e] by simp
    next
      case True
      with Some File have src: "stat (files w) (param_src prm) = Some (File s True ws)"
        by simp
      show ?thesis
      proof (cases "stat (files w) (expanduser e (param_dest prm))")
        case None
        then show ?thesis
          using assms src main_dest_missing [of w prm s ws e] by simp
      next
        case dest: (Some nd')
        show ?thesis
        proof (cases nd')
          case (Link t)
          with dest show ?thesis by (simp add: stat_not_link)
        next
          case (Dir r')
          with dest show ?thesis
            using assms src main_dest_directory [of w prm s ws e r'] by simp
        next
          case (File d r' wr)
          with dest src show ?thesis by simp
        qed
      qed
    qed
  qed
qed

lemma res_args_fields:
  "res_args dest src m c chk ch bf ''dest'' = Some (PStr dest)"
  "res_args dest src m c chk ch bf ''src'' = Some (PStr src)"
  "res_args dest src m c chk ch bf ''md5sum'' = Some (of_optional m)"
  "res_args dest src m c chk ch bf ''checksum'' = Some (of_optional c)"
  "res_args dest src m c chk ch bf ''check'' = Some (PBool chk)"
  "res_args dest src m c chk ch bf ''backup_file'' =
     (if truthy bf then Some (of_optional bf) else None)"
  by (simp_all add: res_args_def Let_def)

lemma main_result_fields:
  assumes "stat (files w) (param_src prm) = Some (File s True ws)"
    and "stat (files w) (expanduser e (param_dest prm)) = Some (File d r wr)"
    and "main e prm w = (Inr res, w')"
  shows "res ''dest'' =
           Some (PStr (realpath (files w) maxsymlinks (expanduser e (param_dest prm)))) \<and>
         res ''src'' = Some (PStr (param_src prm)) \<and>
         res ''checksum'' = Some (PStr (sha1_hex e s)) \<and>
         res ''md5sum'' = Some (if fips_mode e then PNone else PStr (md5_hex e s)) \<and>
         res ''check'' = Some (PBool (check_mode prm))"
  using assms(1,2)
proof (cases rule: main_cases)
  case appends
  then show ?thesis
    using main_appends [OF assms(1,2)] assms(3)
    by (auto simp add: Let_def res_args_fields of_optional_def split: if_splits)
next
  case unreadable
  then show ?thesis
    using main_dest_unreadable [of w prm s ws e d wr] assms by simp
next
  case present
  then show ?thesis
    using main_content_present [of w prm s ws e d wr] assms
    by (auto simp add: res_args_fields of_optional_def)
next
  case absent
  then show ?thesis
    using main_check_content_absent [of w prm s ws e d wr] assms
    by (auto simp add: res_args_fields of_optional_def)
qed

section \<open>Idempotent append (force off)\<close>

text \<open>
  Claim C1, as the code has it. With \<open>force\<close> off and not in check mode, when the text of
  the source already occurs in the destination, the run succeeds, no file of the host is
  changed, and the content decision is "no change". The flag \<open>changed\<close> that is returned
  is that decision OR-ed with the verdict of the file-attribute reconciliation (line 233):
  it is false exactly when no attribute differs.
\<close>

theorem present_content_is_not_appended:
  assumes "stat fs (param_src prm) = Some (File s True ws)"
    and "stat fs (expanduser e (param_dest prm)) = Some (File d True wr)"
    and "\<not> param_force prm" and "\<not> check_mode prm"
    and "sublist s d"
  shows "\<exists>res w'. main e prm (initially fs) = (Inr res, w') \<and>
           res ''changed'' = Some (PBool (attributes_differ e)) \<and>
           res ''backup_file'' = None \<and>
           files w' = fs"
  using main_content_present [of "initially fs" prm s ws e d wr] assms
  by (simp add: initially_def res_args_def truthy_def)

theorem present_content_is_not_appended_witness:
  "sublist ''alias'' ''alias'' \<and>
   (\<exists>res w'. main host_env (task ''/src'' ''/rc'' False False False) (initially host_files) =
       (Inr res, w') \<and>
     res ''changed'' = Some (PBool False) \<and> res ''backup_file'' = None \<and>
     files w' = host_files)"
  using present_content_is_not_appended [of host_files "task ''/src'' ''/rc'' False False False"
      "''alias''" True host_env "''alias''" True]
  by (simp add: task_def host_env_def host_stat_simps)

text \<open>
  The claim as it is written fails when an attribute of the destination differs from the
  one asked for: the content is present, nothing is appended, and \<open>changed\<close> is true.
\<close>

theorem present_content_changed_by_attributes:
  "sublist ''alias'' ''alias'' \<and>
   (\<exists>res w'. main (host_env\<lparr>attributes_differ := True\<rparr>)
       (task ''/src'' ''/rc'' False False False) (initially host_files) = (Inr res, w') \<and>
     res ''changed'' = Some (PBool True) \<and> files w' = host_files)"
  using main_content_present [of "initially host_files" "task ''/src'' ''/rc'' False False False"
      "''alias''" True "host_env\<lparr>attributes_differ := True\<rparr>" "''alias''" True]
  by (simp add: initially_def task_def host_env_def host_stat_simps)

section \<open>Unconditional append (force on)\<close>

text \<open>
  Claim C2. With \<open>force\<close> on and not in check mode, a run on a source that can be read
  and a destination that can be appended to (and read, when a backup is asked for)
  succeeds with \<open>changed\<close> true, and the destination then holds its former content
  followed by the content of the source, whether or not that text was there before.
\<close>

theorem force_appends_verbatim:
  assumes "stat fs (param_src prm) = Some (File s True ws)"
    and "stat fs (expanduser e (param_dest prm)) = Some (File d r True)"
    and "param_force prm" and "\<not> check_mode prm"
    and "r \<or> \<not> param_backup prm"
  shows "\<exists>res w'. main e prm (initially fs) = (Inr res, w') \<and>
           res ''changed'' = Some (PBool True) \<and>
           files w' (realpath fs maxsymlinks (expanduser e (param_dest prm))) =
             Some (File (d @ s) r True)"
  using main_appends [of "initially fs" prm s ws e d r True] assms
  by (auto simp add: initially_def Let_def)

theorem force_appends_verbatim_witness:
  "\<exists>res w'. main host_env (task ''/src'' ''/rc'' False True False) (initially host_files) =
       (Inr res, w') \<and>
     res ''changed'' = Some (PBool True) \<and>
     files w' ''/rc'' = Some (File ''aliasalias'' True True)"
  using force_appends_verbatim [of host_files "task ''/src'' ''/rc'' False True False"
      "''alias''" True host_env "''alias''" True]
  by (simp add: task_def host_env_def host_stat_simps host_realpath_simps)

section \<open>Check mode\<close>

text \<open>
  Claim C3, as the code has it. In check mode, whatever \<open>force\<close> and \<open>backup\<close> are and
  however the run ends, no file of the host is changed and none is created. When source
  and destination can both be read the run succeeds without a backup, and the flag
  \<open>changed\<close> that is returned is true exactly when the text of the source does not occur
  in the destination or the file-attribute reconciliation reports a difference.
\<close>

theorem check_mode_changes_nothing:
  assumes "check_mode prm"
  shows "files (snd (main e prm (initially fs))) = fs \<and>
    (\<forall>s ws d wr.
       stat fs (param_src prm) = Some (File s True ws) \<and>
       stat fs (expanduser e (param_dest prm)) = Some (File d True wr) \<longrightarrow>
       (\<exists>res w'. main e prm (initially fs) = (Inr res, w') \<and>
          res ''changed'' = Some (PBool (\<not> sublist s d \<or> attributes_differ e)) \<and>
          res ''backup_file'' = None))"
proof
  show "files (snd (main e prm (initially fs))) = fs"
  proof (cases "stat fs (param_src prm)")
    case None
    then show ?thesis
      using main_src_missing [of "initially fs" prm e] by (simp add: initially_def)
  next
    case (Some nd)
    show ?thesis
    proof (cases nd)
      case (Link t)
      with Some show ?thesis by (simp add: stat_not_link)
    next
      case (Dir r)
      with Some show ?thesis
        using main_src_unreadable [of "initially fs" prm undefined undefined e]
          main_src_directory [of "initially fs" prm e]
        by (cases r) (simp_all add: initially_def)
    next
      case (File s r ws)
      show ?thesis
      proof (cases r)
        case False
        with Some File show ?thesis
          using main_src_unreadable [of "initially fs" prm s ws e]
          by (simp add: initially_def)
      next
        case True
        with Some File have src: "stat fs (param_src prm) = Some (File s True ws)"
          by simp
        show ?thesis
        proof (cases "stat fs (expanduser e (param_dest prm))")
          case None
          then show ?thesis
            using src main_dest_missing [of "initially fs" prm s ws e]
            by (simp add: initially_def)
        next
          case dest: (Some nd')
          show ?thesis
          proof (cases nd')
            case (Link t)
            with dest show ?thesis by (simp add: stat_not_link)
          next
            case (Dir r')
            with dest show ?thesis
              using src main_dest_directory [of "initially fs" prm s ws e r']
              by (simp add: initially_def)
          next
            case (File d r' wr)
            show ?thesis
            proof (cases r')
              case False
              with dest File show ?thesis
                using src assms main_dest_unreadable [of "initially fs" prm s ws e d wr]
                by (simp add: initially_def)
            next
              case True
              with dest File show ?thesis
                using src assms
                  main_content_present [of "initially fs" prm s ws e d wr]
                  main_check_content_absent [of "initially fs" prm s ws e d wr]
                by (cases "sublist s d") (simp_all add: initially_def)
            qed
          qed
        qed
      qed
    qed
  qed
next
  show "\<forall>s ws d wr.
       stat fs (param_src prm) = Some (File s True ws) \<and>
       stat fs (expanduser e (param_dest prm)) = Some (File d True wr) \<longrightarrow>
       (\<exists>res w'. main e prm (initially fs) = (Inr res, w') \<and>
          res ''changed'' = Some (PBool (\<not> sublist s d \<or> attributes_differ e)) \<and>
          res ''backup_file'' = None)"
  proof (intro allI impI)
    fix s ws d wr
    assume h: "stat fs (param_src prm) = Some (File s True ws) \<and>
       stat fs (expanduser e (param_dest prm)) = Some (File d True wr)"
    show "\<exists>res w'. main e prm (initially fs) = (Inr res, w') \<and>
          res ''changed'' = Some (PBool (\<not> sublist s d \<or> attributes_differ e)) \<and>
          res ''backup_file'' = None"
      using h assms
        main_content_present [of "initially fs" prm s ws e d wr]
        main_check_content_absent [of "initially fs" prm s ws e d wr]
      by (cases "sublist s d") (simp_all add: initially_def res_args_def truthy_def)
  qed
qed

theorem check_mode_changes_nothing_witness:
  "files (snd (main host_env (task ''/src'' ''/profile'' True True True)
      (initially host_files))) = host_files \<and>
   (\<exists>res w'. main host_env (task ''/src'' ''/profile'' True True True) (initially host_files) =
       (Inr res, w') \<and>
     res ''changed'' = Some (PBool True) \<and> res ''backup_file'' = None) \<and>
   \<not> sublist ''alias'' ''export''"
proof -
  have ns: "\<not> sublist ''alias'' ''export''"
    by (simp add: sublist_code)
  have c: "check_mode (task ''/src'' ''/profile'' True True True)"
    by (simp add: task_def)
  note t = check_mode_changes_nothing [OF c, of host_env host_files]
  have "files (snd (main host_env (task ''/src'' ''/profile'' True True True)
      (initially host_files))) = host_files"
    using t by simp
  moreover have "\<exists>res w'. main host_env (task ''/src'' ''/profile'' True True True)
       (initially host_files) = (Inr res, w') \<and>
     res ''changed'' = Some (PBool True) \<and> res ''backup_file'' = None"
    using t [THEN conjunct2, rule_format, of "''alias''" True "''export''" True] ns
    by (simp add: task_def host_env_def host_stat_simps)
  ultimately show ?thesis using ns by simp
qed

text \<open>
  The claim as it is written fails when an attribute of the destination differs from the
  one asked for: in check mode, with the text present, \<open>changed\<close> is true.
\<close>

theorem check_mode_changed_by_attributes:
  "sublist ''alias'' ''alias'' \<and>
   (\<exists>res w'. main (host_env\<lparr>attributes_differ := True\<rparr>)
       (task ''/src'' ''/rc'' False True True) (initially host_files) = (Inr res, w') \<and>
     res ''changed'' = Some (PBool True))"
  using main_content_present [of "initially host_files" "task ''/src'' ''/rc'' False True True"
      "''alias''" True "host_env\<lparr>attributes_differ := True\<rparr>" "''alias''" True]
  by (simp add: initially_def task_def host_env_def host_stat_simps)

section \<open>A destination that is a symbolic link\<close>

text \<open>
  The block of lines 195 to 197 (\<^verbatim>\<open>os.unlink(dest)\<close>, then \<^verbatim>\<open>open(dest, 'w').close()\<close>) is
  never reached. Whatever the host, the parameters and the environment, and however the
  run ends, no path at all is unlinked and no path at all is opened for writing: when the
  run comes to line 195, \<^verbatim>\<open>dest\<close> is what line 184 made of it, the real path, and the real
  path of a destination that exists is no link.
\<close>

lemma conversion_is_never_reached:
  "Unlink p \<notin> set (trace (snd (main e prm (initially fs)))) \<and>
   Open_write p \<notin> set (trace (snd (main e prm (initially fs))))"
proof (cases "stat fs (param_src prm)")
  case None
  then show ?thesis
    using main_src_missing [of "initially fs" prm e] by (simp add: initially_def)
next
  case (Some nd)
  show ?thesis
  proof (cases nd)
    case (Link t)
    with Some show ?thesis by (simp add: stat_not_link)
  next
    case (Dir r)
    with Some show ?thesis
      using main_src_unreadable [of "initially fs" prm undefined undefined e]
        main_src_directory [of "initially fs" prm e]
      by (cases r) (simp_all add: initially_def)
  next
    case (File s r ws)
    show ?thesis
    proof (cases r)
      case False
      with Some File show ?thesis
        using main_src_unreadable [of "initially fs" prm s ws e]
        by (simp add: initially_def)
    next
      case True
      with Some File have h1:
        "stat (files (initially fs)) (param_src prm) = Some (File s True ws)"
        by (simp add: initially_def)
      show ?thesis
      proof (cases "stat fs (expanduser e (param_dest prm))")
        case None
        then show ?thesis
          using h1 main_dest_missing [of "initially fs" prm s ws e]
          by (simp add: initially_def)
      next
        case dest: (Some nd')
        show ?thesis
        proof (cases nd')
          case (Link t)
          with dest show ?thesis by (simp add: stat_not_link)
        next
          case (Dir r')
          with dest show ?thesis
            using h1 main_dest_directory [of "initially fs" prm s ws e r']
            by (simp add: initially_def split: option.splits node.splits)
        next
          case (File d r' wr)
          with dest have h2:
            "stat (files (initially fs)) (expanduser e (param_dest prm)) =
               Some (File d r' wr)"
            by (simp add: initially_def)
          from h1 h2 show ?thesis
          proof (cases rule: main_cases)
            case appends
            then show ?thesis
              using main_appends [OF h1 h2]
              by (auto simp add: initially_def Let_def events_before_try_def
                  split: option.splits node.splits)
          next
            case unreadable
            then show ?thesis
              using main_dest_unreadable [of "initially fs" prm s ws e d wr] h1 h2
              by (auto simp add: initially_def events_before_try_def
                  split: option.splits node.splits)
          next
            case present
            then show ?thesis
              using main_content_present [of "initially fs" prm s ws e d wr] h1 h2
              by (auto simp add: initially_def events_before_try_def
                  split: option.splits node.splits)
          next
            case absent
            then show ?thesis
              using main_check_content_absent [of "initially fs" prm s ws e d wr] h1 h2
              by (auto simp add: initially_def events_before_try_def
                  split: option.splits node.splits)
          qed
        qed
      qed
    qed
  qed
qed

text \<open>
  Claim C4 says that a destination supplied as a link to a regular file is replaced by an
  empty regular file at the same path, whatever \<open>force\<close> and \<open>check_mode\<close> are, also when
  the run reports no change. That is what the comment of line 194 announces and what lines
  195 to 197 would do; the code does not do it. On a host where \<^verbatim>\<open>/link\<close> is a link to
  \<^verbatim>\<open>/rc\<close>, which holds the text of the source: with \<open>force\<close> off the run reports no change,
  and in check mode with \<open>force\<close> on as well; in both runs every file of the host is what
  it was, so \<^verbatim>\<open>/link\<close> is still the link and no empty regular file, and \<^verbatim>\<open>/rc\<close> still
  holds its text; the calls made are exactly those listed, with the link test of line
  195 made on \<^verbatim>\<open>/rc\<close>, after the resolution of line 184, and neither an unlink nor an
  opening for writing among them.
\<close>

theorem symlink_destination_is_not_converted:
  "host_files ''/link'' = Some (Link ''/rc'') \<and>
   host_files ''/rc'' = Some (File ''alias'' True True) \<and>
   (\<exists>res. main host_env (task ''/src'' ''/link'' False False False) (initially host_files) =
       (Inr res,
        \<lparr>files = host_files,
          trace = [Exists ''/src'', Access_R ''/src'', Sha1 ''/src'', Md5 ''/src'',
                   Exists ''/link'', Islink ''/link'', Realpath ''/link'', Isdir ''/rc'',
                   Access_R ''/rc'', Sha1 ''/rc'', Islink ''/rc'', Open_read ''/src'',
                   Open_read ''/rc'', Set_fs_attributes ''/link'']\<rparr>) \<and>
     res ''changed'' = Some (PBool False) \<and>
     res ''dest'' = Some (PStr ''/rc'')) \<and>
   (\<exists>res. main host_env (task ''/src'' ''/link'' False True True) (initially host_files) =
       (Inr res,
        \<lparr>files = host_files,
          trace = [Exists ''/src'', Access_R ''/src'', Sha1 ''/src'', Md5 ''/src'',
                   Exists ''/link'', Islink ''/link'', Realpath ''/link'', Isdir ''/rc'',
                   Access_R ''/rc'', Sha1 ''/rc'', Islink ''/rc'', Open_read ''/src'',
                   Open_read ''/rc'', Set_fs_attributes ''/link'']\<rparr>) \<and>
     res ''changed'' = Some (PBool False) \<and>
     res ''dest'' = Some (PStr ''/rc''))"
  using main_content_present [of "initially host_files"
      "task ''/src'' ''/link'' False False False" "''alias''" True host_env "''alias''" True]
    main_content_present [of "initially host_files"
      "task ''/src'' ''/link'' False True True" "''alias''" True host_env "''alias''" True]
  by (simp add: initially_def task_def host_env_def host_stat_simps host_realpath_simps
      host_files_simps events_before_try_def res_args_fields)

section \<open>The order of resolution and directory check\<close>

text \<open>
  Claim C5, as the code has it. In lines 182 to 186 the link is resolved first (lines 183
  and 184) and the directory test of line 185 is made afterwards, on the real path. For
  a readable source and a destination that is a link leading somewhere, the calls of a
  run begin with those on the source, then on the destination: existence, link test,
  resolution, and only then the directory test, on the real path; the path supplied is
  never tested for being a directory before it is resolved. The outcome of the test is
  the same on both paths, since the test follows links; when it is a directory, the
  message names the real path.
\<close>

theorem resolution_precedes_directory_check:
  assumes "stat fs (param_src prm) = Some (File s True ws)"
    and "fs (expanduser e (param_dest prm)) = Some (Link t)"
    and "stat fs (expanduser e (param_dest prm)) = Some nd"
  shows
    "(let src = param_src prm;
          dest = expanduser e (param_dest prm);
          q = realpath fs maxsymlinks dest;
          called = [Exists src, Access_R src, Sha1 src, Md5 src,
                    Exists dest, Islink dest, Realpath dest, Isdir q]
      in (\<exists>rest. trace (snd (main e prm (initially fs))) = called @ rest) \<and>
         \<not> directory_check_before_resolution (trace (snd (main e prm (initially fs)))) dest \<and>
         stat fs q = stat fs dest \<and>
         (case nd of
            Dir r \<Rightarrow>
              main e prm (initially fs) =
                (Inl (Fail_json (''Source '' @ q @ '' is directory, must be file'')),
                 \<lparr>files = fs, trace = called\<rparr>)
          | _ \<Rightarrow> fst (main e prm (initially fs)) \<noteq>
                 Inl (Fail_json (''Source '' @ q @ '' is directory, must be file''))))"
proof (cases nd)
  case (Link t')
  with assms(3) show ?thesis by (simp add: stat_not_link)
next
  case (Dir r)
  have "stat fs (realpath fs maxsymlinks (expanduser e (param_dest prm))) = Some (Dir r)"
    using assms(3) Dir by (simp add: stat_realpath stat_dir)
  then show ?thesis
    using main_dest_directory [of "initially fs" prm s ws e r] assms Dir
    by (simp add: initially_def Let_def directory_check_before_resolution_def)
next
  case (File d r wr)
  have sq: "stat fs (realpath fs maxsymlinks (expanduser e (param_dest prm))) =
      Some (File d r wr)"
    using assms(3) File by (simp add: stat_realpath stat_file)
  have h1: "stat (files (initially fs)) (param_src prm) = Some (File s True ws)"
    using assms(1) by (simp add: initially_def)
  have h2: "stat (files (initially fs)) (expanduser e (param_dest prm)) = Some (File d r wr)"
    using assms(3) File by (simp add: initially_def)
  from h1 h2 show ?thesis
  proof (cases rule: main_cases)
    case appends
    then show ?thesis
      using main_appends [OF h1 h2] assms File sq
      by (auto simp add: initially_def Let_def events_before_try_def
          directory_check_before_resolution_def)
  next
    case unreadable
    then show ?thesis
      using main_dest_unreadable [of "initially fs" prm s ws e d wr] assms File sq h1 h2
      by (auto simp add: initially_def Let_def events_before_try_def
          directory_check_before_resolution_def)
  next
    case present
    then show ?thesis
      using main_content_present [of "initially fs" prm s ws e d wr] assms File sq h1 h2
      by (auto simp add: initially_def Let_def events_before_try_def
          directory_check_before_resolution_def)
  next
    case absent
    then show ?thesis
      using main_check_content_absent [of "initially fs" prm s ws e d wr] assms File sq h1 h2
      by (auto simp add: initially_def Let_def events_before_try_def
          directory_check_before_resolution_def)
  qed
qed

theorem resolution_precedes_directory_check_witness:
  "(\<exists>rest. trace (snd (main host_env (task ''/src'' ''/link'' False False False)
       (initially host_files))) =
      [Exists ''/src'', Access_R ''/src'', Sha1 ''/src'', Md5 ''/src'',
       Exists ''/link'', Islink ''/link'', Realpath ''/link'', Isdir ''/rc''] @ rest) \<and>
   \<not> directory_check_before_resolution
       (trace (snd (main host_env (task ''/src'' ''/link'' False False False)
          (initially host_files)))) ''/link'' \<and>
   stat host_files ''/rc'' = stat host_files ''/link'' \<and>
   host_files ''/link'' = Some (Link ''/rc'')"
  using resolution_precedes_directory_check [of host_files
      "task ''/src'' ''/link'' False False False" "''alias''" True host_env "''/rc''"
      "File ''alias'' True True"]
  by (simp add: task_def host_env_def host_stat_simps host_realpath_simps host_files_simps
      Let_def)

text \<open>
  The claim as it is written fails: given a link to a directory, the run does not test
  the path supplied for being a directory before it resolves it; it resolves first, tests
  the real path, and the failure names the real path.
\<close>

theorem directory_check_is_not_before_resolution:
  "\<not> directory_check_before_resolution
       (trace (snd (main host_env (task ''/src'' ''/dirlink'' False True False)
          (initially host_files)))) ''/dirlink'' \<and>
   main host_env (task ''/src'' ''/dirlink'' False True False) (initially host_files) =
     (Inl (Fail_json ''Source /home is directory, must be file''),
      \<lparr>files = host_files,
        trace = [Exists ''/src'', Access_R ''/src'', Sha1 ''/src'', Md5 ''/src'',
                 Exists ''/dirlink'', Islink ''/dirlink'', Realpath ''/dirlink'',
                 Isdir ''/home'']\<rparr>)"
  using main_dest_directory [of "initially host_files"
      "task ''/src'' ''/dirlink'' False True False" "''alias''" True host_env True]
  by (simp add: initially_def task_def host_env_def host_stat_simps host_realpath_simps
      host_files_simps directory_check_before_resolution_def)

section \<open>Precondition failures\<close>

text \<open>
  Claim C6. Each precondition failure ends the run with its own message and leaves every
  file as it was. A missing source fails after the single call that looks for it, an
  unreadable source after the two calls on the source: no call on the destination has
  been made by then. A missing destination and a destination that leads to a directory
  fail after the source has been checked and digested. The texts are those of lines 168,
  170, 190 and 186.
\<close>

theorem precondition_failures_mutate_nothing:
  "(stat fs (param_src prm) = None \<longrightarrow>
      main e prm (initially fs) =
        (Inl (Fail_json (''Source '' @ param_src prm @ '' not found'')),
         \<lparr>files = fs, trace = [Exists (param_src prm)]\<rparr>)) \<and>
   (stat fs (param_src prm) = Some (File s False ws) \<longrightarrow>
      main e prm (initially fs) =
        (Inl (Fail_json (''Source '' @ param_src prm @ '' not readable'')),
         \<lparr>files = fs, trace = [Exists (param_src prm), Access_R (param_src prm)]\<rparr>)) \<and>
   (stat fs (param_src prm) = Some (File s True ws) \<and>
    stat fs (expanduser e (param_dest prm)) = None \<longrightarrow>
      main e prm (initially fs) =
        (Inl (Fail_json (''Destination '' @ expanduser e (param_dest prm) @
                '' doesn't exists'')),
         \<lparr>files = fs,
           trace = [Exists (param_src prm), Access_R (param_src prm), Sha1 (param_src prm),
                    Md5 (param_src prm), Exists (expanduser e (param_dest prm))]\<rparr>)) \<and>
   (stat fs (param_src prm) = Some (File s True ws) \<and>
    stat fs (expanduser e (param_dest prm)) = Some (Dir r) \<longrightarrow>
      (\<exists>w'. main e prm (initially fs) =
        (Inl (Fail_json (''Source '' @
                realpath fs maxsymlinks (expanduser e (param_dest prm)) @
                '' is directory, must be file'')), w') \<and>
        files w' = fs \<and>
        (\<forall>p. Open_read p \<notin> set (trace w') \<and> Append_to_file p \<notin> set (trace w') \<and>
             Backup_local p \<notin> set (trace w'))))"
proof (intro conjI impI)
  assume "stat fs (param_src prm) = None"
  then show "main e prm (initially fs) =
        (Inl (Fail_json (''Source '' @ param_src prm @ '' not found'')),
         \<lparr>files = fs, trace = [Exists (param_src prm)]\<rparr>)"
    using main_src_missing [of "initially fs" prm e] by (simp add: initially_def)
next
  assume "stat fs (param_src prm) = Some (File s False ws)"
  then show "main e prm (initially fs) =
        (Inl (Fail_json (''Source '' @ param_src prm @ '' not readable'')),
         \<lparr>files = fs, trace = [Exists (param_src prm), Access_R (param_src prm)]\<rparr>)"
    using main_src_unreadable [of "initially fs" prm s ws e] by (simp add: initially_def)
next
  assume "stat fs (param_src prm) = Some (File s True ws) \<and>
    stat fs (expanduser e (param_dest prm)) = None"
  then show "main e prm (initially fs) =
        (Inl (Fail_json (''Destination '' @ expanduser e (param_dest prm) @
                '' doesn't exists'')),
         \<lparr>files = fs,
           trace = [Exists (param_src prm), Access_R (param_src prm), Sha1 (param_src prm),
                    Md5 (param_src prm), Exists (expanduser e (param_dest prm))]\<rparr>)"
    using main_dest_missing [of "initially fs" prm s ws e] by (simp add: initially_def)
next
  assume "stat fs (param_src prm) = Some (File s True ws) \<and>
    stat fs (expanduser e (param_dest prm)) = Some (Dir r)"
  then show "\<exists>w'. main e prm (initially fs) =
        (Inl (Fail_json (''Source '' @
                realpath fs maxsymlinks (expanduser e (param_dest prm)) @
                '' is directory, must be file'')), w') \<and>
        files w' = fs \<and>
        (\<forall>p. Open_read p \<notin> set (trace w') \<and> Append_to_file p \<notin> set (trace w') \<and>
             Backup_local p \<notin> set (trace w'))"
    using main_dest_directory [of "initially fs" prm s ws e r]
    by (auto simp add: initially_def split: option.splits node.splits)
qed

theorem precondition_failures_mutate_nothing_witness:
  "main host_env (task ''/nowhere'' ''/rc'' True True False) (initially host_files) =
     (Inl (Fail_json ''Source /nowhere not found''),
      \<lparr>files = host_files, trace = [Exists ''/nowhere'']\<rparr>) \<and>
   main host_env (task ''/secret'' ''/rc'' True True False) (initially host_files) =
     (Inl (Fail_json ''Source /secret not readable''),
      \<lparr>files = host_files, trace = [Exists ''/secret'', Access_R ''/secret'']\<rparr>) \<and>
   main host_env (task ''/src'' ''/nowhere'' True True False) (initially host_files) =
     (Inl (Fail_json ''Destination /nowhere doesn't exists''),
      \<lparr>files = host_files,
        trace = [Exists ''/src'', Access_R ''/src'', Sha1 ''/src'', Md5 ''/src'',
                 Exists ''/nowhere'']\<rparr>) \<and>
   (\<exists>w'. main host_env (task ''/src'' ''/home'' True True False) (initially host_files) =
     (Inl (Fail_json ''Source /home is directory, must be file''), w') \<and>
     files w' = host_files)"
proof -
  have 1: "main host_env (task ''/nowhere'' ''/rc'' True True False) (initially host_files) =
     (Inl (Fail_json ''Source /nowhere not found''),
      \<lparr>files = host_files, trace = [Exists ''/nowhere'']\<rparr>)"
    using precondition_failures_mutate_nothing [of host_files
        "task ''/nowhere'' ''/rc'' True True False" host_env]
    by (simp add: task_def host_env_def host_stat_simps)
  have 2: "main host_env (task ''/secret'' ''/rc'' True True False) (initially host_files) =
     (Inl (Fail_json ''Source /secret not readable''),
      \<lparr>files = host_files, trace = [Exists ''/secret'', Access_R ''/secret'']\<rparr>)"
    using precondition_failures_mutate_nothing [of host_files
        "task ''/secret'' ''/rc'' True True False" host_env "''alias''" True]
    by (simp add: task_def host_env_def host_stat_simps)
  have 3: "main host_env (task ''/src'' ''/nowhere'' True True False) (initially host_files) =
     (Inl (Fail_json ''Destination /nowhere doesn't exists''),
      \<lparr>files = host_files,
        trace = [Exists ''/src'', Access_R ''/src'', Sha1 ''/src'', Md5 ''/src'',
                 Exists ''/nowhere'']\<rparr>)"
    using precondition_failures_mutate_nothing [of host_files
        "task ''/src'' ''/nowhere'' True True False" host_env "''alias''" True]
    by (simp add: task_def host_env_def host_stat_simps)
  have 4: "\<exists>w'. main host_env (task ''/src'' ''/home'' True True False) (initially host_files) =
     (Inl (Fail_json ''Source /home is directory, must be file''), w') \<and>
     files w' = host_files"
    using precondition_failures_mutate_nothing [of host_files
        "task ''/src'' ''/home'' True True False" host_env "''alias''" True True]
    by (auto simp add: task_def host_env_def host_stat_simps host_realpath_simps)
  from 1 2 3 4 show ?thesis by blast
qed

section \<open>The backup\<close>

text \<open>
  Claim C7, as the code has it. Let source and destination be there, and the name of the
  backup be new. A backup artifact exists after the run exactly when \<open>backup\<close> is on,
  the run is not in check mode, the destination can be read, and \<open>force\<close> is on or the
  text of the source is not in the destination: that is, exactly when the run comes to
  append with \<open>backup\<close> on. The artifact holds the content the destination had before.
  As soon as it is made the append is attempted; in a run that succeeds the artifact is
  made exactly when \<open>backup\<close> is on and the append took place, and the key
  \<open>backup_file\<close> is in the result exactly then, with the artifact's name. Nothing is
  said here of the artifact being removed when the append fails: it is not.
\<close>

theorem backup_exactly_when_appending:
  assumes "stat fs (param_src prm) = Some (File s True ws)"
    and "stat fs (expanduser e (param_dest prm)) = Some (File d r wr)"
    and "fs (realpath fs maxsymlinks (expanduser e (param_dest prm)) @ ''.'' @ timestamp e) =
         None"
  shows
    "(let q = realpath fs maxsymlinks (expanduser e (param_dest prm));
          b = q @ ''.'' @ timestamp e;
          made = (param_backup prm \<and> \<not> check_mode prm \<and> r \<and>
                  (param_force prm \<or> \<not> sublist s d));
          w' = snd (main e prm (initially fs))
      in files w' b = (if made then Some (File d r wr) else None) \<and>
         (made \<longrightarrow> Append_to_file q \<in> set (trace w')) \<and>
         (\<forall>res. fst (main e prm (initially fs)) = Inr res \<longrightarrow>
            (made \<longleftrightarrow> param_backup prm \<and> Append_to_file q \<in> set (trace w')) \<and>
            res ''backup_file'' = (if made then Some (PStr b) else None)))"
proof -
  let ?dest = "expanduser e (param_dest prm)"
  let ?q = "realpath fs maxsymlinks ?dest"
  have q: "fs ?q = Some (File d r wr)"
    using assms(2) by (rule stat_realpath)
  have qb: "?q @ ''.'' @ timestamp e \<noteq> ?q"
    by simp
  have h1: "stat (files (initially fs)) (param_src prm) = Some (File s True ws)"
    using assms(1) by (simp add: initially_def)
  have h2: "stat (files (initially fs)) ?dest = Some (File d r wr)"
    using assms(2) by (simp add: initially_def)
  from h1 h2 show ?thesis
  proof (cases rule: main_cases)
    case appends
    then show ?thesis
      using main_appends [OF h1 h2] assms(3) q
      by (auto simp add: initially_def Let_def events_before_try_def res_args_fields
          truthy_def of_optional_def)
  next
    case unreadable
    then show ?thesis
      using main_dest_unreadable [of "initially fs" prm s ws e d wr] assms q
      by (auto simp add: initially_def Let_def events_before_try_def)
  next
    case present
    then show ?thesis
      using main_content_present [of "initially fs" prm s ws e d wr] assms q
      by (auto simp add: initially_def Let_def events_before_try_def res_args_fields
          truthy_def)
  next
    case absent
    then show ?thesis
      using main_check_content_absent [of "initially fs" prm s ws e d wr] assms q
      by (auto simp add: initially_def Let_def events_before_try_def res_args_fields
          truthy_def)
  qed
qed

theorem backup_exactly_when_appending_witness:
  "files (snd (main host_env (task ''/src'' ''/profile'' True False False)
      (initially host_files))) ''/profile.2015-02-12@22:09:00~'' =
     Some (File ''export'' True True) \<and>
   Append_to_file ''/profile'' \<in>
     set (trace (snd (main host_env (task ''/src'' ''/profile'' True False False)
       (initially host_files)))) \<and>
   host_files ''/profile.2015-02-12@22:09:00~'' = None \<and>
   \<not> sublist ''alias'' ''export''"
proof -
  have ns: "\<not> sublist ''alias'' ''export''"
    by (simp add: sublist_code)
  have new: "host_files ''/profile.2015-02-12@22:09:00~'' = None"
    by (simp add: host_files_simps)
  show ?thesis
    using backup_exactly_when_appending [of host_files
        "task ''/src'' ''/profile'' True False False" "''alias''" True host_env
        "''export''" True True] ns new
    by (simp add: task_def host_env_def host_stat_simps host_realpath_simps Let_def)
qed

text \<open>
  The claim as it is written fails on a destination that can be read but not written,
  with \<open>backup\<close> and \<open>force\<close> on: the artifact is made, then the append fails, the run
  ends with the append failure and the destination holds what it held. A backup exists
  and no content was changed.
\<close>

theorem backup_without_mutation:
  "\<exists>w'. main host_env (task ''/src'' ''/readonly'' True True False) (initially host_files) =
       (Inl (Fail_json ''failed to append: /src to /readonly''), w') \<and>
     host_files ''/readonly.2015-02-12@22:09:00~'' = None \<and>
     files w' ''/readonly.2015-02-12@22:09:00~'' = Some (File ''export'' True False) \<and>
     files w' ''/readonly'' = host_files ''/readonly''"
  using main_appends [of "initially host_files" "task ''/src'' ''/readonly'' True True False"
      "''alias''" True host_env "''export''" True False]
  by (simp add: initially_def task_def host_env_def host_stat_simps host_realpath_simps
      host_files_simps Let_def)

section \<open>The digests\<close>

text \<open>
  Claim C8, as the code has it. When MD5 cannot be computed the run goes exactly as it
  would otherwise: same end, same files, same calls. A result, when there is one, is the
  result with MD5 except at the key \<open>md5sum\<close>: the key is there and holds \<open>None\<close> (line
  178 assigns it, line 227 puts it into the dictionary); the key \<open>checksum\<close> holds the
  SHA-1 of the source.
\<close>

theorem md5_unavailable_is_none:
  assumes "stat fs (param_src prm) = Some (File s True ws)"
    and "fips_mode e"
  shows "snd (main e prm (initially fs)) =
           snd (main (e\<lparr>fips_mode := False\<rparr>) prm (initially fs)) \<and>
         (case fst (main (e\<lparr>fips_mode := False\<rparr>) prm (initially fs)) of
            Inl x \<Rightarrow> fst (main e prm (initially fs)) = Inl x
          | Inr res' \<Rightarrow>
              (\<exists>res. fst (main e prm (initially fs)) = Inr res \<and>
                 res = res'(''md5sum'' \<mapsto> PNone) \<and>
                 res' ''md5sum'' = Some (PStr (md5_hex e s)) \<and>
                 res ''checksum'' = Some (PStr (sha1_hex e s))))"
proof -
  let ?e = "e\<lparr>fips_mode := False\<rparr>"
  let ?w = "initially fs"
  have h1: "stat (files ?w) (param_src prm) = Some (File s True ws)"
    using assms(1) by (simp add: initially_def)
  have md5: "\<And>q src c chk ch bf m.
      (res_args q src (Some m) c chk ch bf)(''md5sum'' \<mapsto> PNone) =
        res_args q src None c chk ch bf"
    by (auto simp add: res_args_def of_optional_def Let_def fun_eq_iff)
  have twist: "\<And>(f :: result) x y. (f(''changed'' \<mapsto> x))(''md5sum'' \<mapsto> y) =
      (f(''md5sum'' \<mapsto> y))(''changed'' \<mapsto> x)"
    by (auto simp add: fun_eq_iff)
  show ?thesis
  proof (cases "stat fs (expanduser e (param_dest prm))")
    case None
    then show ?thesis
      using main_dest_missing [of ?w prm s ws e] main_dest_missing [of ?w prm s ws ?e] h1
      by (simp add: initially_def)
  next
    case (Some nd)
    show ?thesis
    proof (cases nd)
      case (Link t)
      with Some show ?thesis by (simp add: stat_not_link)
    next
      case (Dir r)
      with Some show ?thesis
        using main_dest_directory [of ?w prm s ws e r]
          main_dest_directory [of ?w prm s ws ?e r] h1
        by (simp add: initially_def split: option.splits node.splits)
    next
      case (File d r wr)
      with Some have h2: "stat (files ?w) (expanduser e (param_dest prm)) = Some (File d r wr)"
        by (simp add: initially_def)
      from h1 h2 show ?thesis
      proof (cases rule: main_cases)
        case appends
        then show ?thesis
          using main_appends [of ?w prm s ws e d r wr]
            main_appends [of ?w prm s ws ?e d r wr] h1 h2 assms(2)
          by (simp add: Let_def md5 twist res_args_fields of_optional_def)
      next
        case unreadable
        then show ?thesis
          using main_dest_unreadable [of ?w prm s ws e d wr]
            main_dest_unreadable [of ?w prm s ws ?e d wr] h1 h2
          by simp
      next
        case present
        then show ?thesis
          using main_content_present [of ?w prm s ws e d wr]
            main_content_present [of ?w prm s ws ?e d wr] h1 h2 assms(2)
          by (simp add: md5 twist res_args_fields of_optional_def)
      next
        case absent
        then show ?thesis
          using main_check_content_absent [of ?w prm s ws e d wr]
            main_check_content_absent [of ?w prm s ws ?e d wr] h1 h2 assms(2)
          by (simp add: md5 twist res_args_fields of_optional_def)
      qed
    qed
  qed
qed

theorem md5_unavailable_is_none_witness:
  "\<exists>res. fst (main (host_env\<lparr>fips_mode := True\<rparr>) (task ''/src'' ''/profile'' False True False)
       (initially host_files)) = Inr res \<and>
     res ''md5sum'' = Some PNone \<and>
     res ''checksum'' = Some (PStr ''sha1:alias'')"
proof -
  have ok: "\<exists>res' w'. main host_env (task ''/src'' ''/profile'' False True False)
      (initially host_files) = (Inr res', w')"
    using main_appends [of "initially host_files" "task ''/src'' ''/profile'' False True False"
        "''alias''" True host_env "''export''" True True]
    by (simp add: initially_def task_def host_env_def host_stat_simps Let_def)
  have same: "(host_env\<lparr>fips_mode := True\<rparr>)\<lparr>fips_mode := False\<rparr> = host_env"
    by (simp add: host_env_def)
  show ?thesis
    using md5_unavailable_is_none [of host_files "task ''/src'' ''/profile'' False True False"
        "''alias''" True "host_env\<lparr>fips_mode := True\<rparr>"] ok
    by (auto simp add: same task_def host_stat_simps host_env_def)
qed

text \<open>
  The claim as it is written fails: in FIPS mode the key \<open>md5sum\<close> is not left out of
  the result, it is one of its keys and its value is \<open>None\<close>.
\<close>

theorem md5sum_key_is_present:
  "\<exists>res w'. main (host_env\<lparr>fips_mode := True\<rparr>) (task ''/src'' ''/profile'' False True False)
       (initially host_files) = (Inr res, w') \<and>
     ''md5sum'' \<in> dom res \<and> res ''md5sum'' = Some PNone \<and>
     ''backup_file'' \<notin> dom res"
  using main_appends [of "initially host_files" "task ''/src'' ''/profile'' False True False"
      "''alias''" True "host_env\<lparr>fips_mode := True\<rparr>" "''export''" True True]
  by (simp add: initially_def task_def host_env_def host_stat_simps Let_def res_args_fields
      of_optional_def truthy_def dom_def)

section \<open>The destination that is reported\<close>

text \<open>
  Claim C9. When the destination supplied is a link and the run succeeds, the key
  \<open>dest\<close> of the result holds the real path the link leads to, which is a regular file
  and is not the path that was supplied.
\<close>

theorem result_names_the_real_path:
  assumes "fs (expanduser e (param_dest prm)) = Some (Link t)"
    and "main e prm (initially fs) = (Inr res, w')"
  shows "res ''dest'' = Some (PStr (realpath fs maxsymlinks (expanduser e (param_dest prm)))) \<and>
         realpath fs maxsymlinks (expanduser e (param_dest prm)) \<noteq>
           expanduser e (param_dest prm) \<and>
         res ''dest'' \<noteq> Some (PStr (expanduser e (param_dest prm))) \<and>
         (\<exists>d r wr. fs (realpath fs maxsymlinks (expanduser e (param_dest prm))) =
            Some (File d r wr))"
proof -
  obtain s ws d r wr where
    h1: "stat (files (initially fs)) (param_src prm) = Some (File s True ws)" and
    h2: "stat (files (initially fs)) (expanduser e (param_dest prm)) = Some (File d r wr)"
    using main_success_needs_files [OF assms(2)] by blast
  have h2': "stat fs (expanduser e (param_dest prm)) = Some (File d r wr)"
    using h2 by (simp add: initially_def)
  have ne: "realpath fs maxsymlinks (expanduser e (param_dest prm)) \<noteq>
      expanduser e (param_dest prm)"
    using assms(1) h2' by (rule stat_link_differs)
  have q: "fs (realpath fs maxsymlinks (expanduser e (param_dest prm))) = Some (File d r wr)"
    using h2' by (rule stat_realpath)
  show ?thesis
    using main_result_fields [OF h1 h2 assms(2)] ne q
    by (simp add: initially_def)
qed

theorem result_names_the_real_path_witness:
  "\<exists>res w'. main host_env (task ''/src'' ''/link'' False True False) (initially host_files) =
       (Inr res, w') \<and>
     res ''dest'' = Some (PStr ''/rc'') \<and>
     host_files ''/link'' = Some (Link ''/rc'')"
proof -
  obtain res w' where
    run: "main host_env (task ''/src'' ''/link'' False True False) (initially host_files) =
      (Inr res, w')"
    using main_appends [of "initially host_files" "task ''/src'' ''/link'' False True False"
        "''alias''" True host_env "''alias''" True True]
    by (simp add: initially_def task_def host_env_def host_stat_simps Let_def)
  have link: "host_files (expanduser host_env (param_dest
      (task ''/src'' ''/link'' False True False))) = Some (Link ''/rc'')"
    by (simp add: task_def host_env_def host_files_simps)
  show ?thesis
    using result_names_the_real_path [OF link run] run
    by (simp add: task_def host_env_def host_realpath_simps host_files_simps)
qed

section \<open>A destination that cannot be read\<close>



end
